theory Spec2Isabelle
  imports Complex_Main "HOL-Library.AList" "HOL-Library.Monad_Syntax"
begin

section \<open>Values and the entity model\<close>

text \<open>
  JavaScript values as they occur in the open \<open>Record<string, unknown>\<close> maps of the
  program (executor metadata, edge data, type-specific executor fields). An object is a
  map from property names to values; a property that is present with the value
  \<open>undefined\<close> is \<open>Some JUndefined\<close>, an absent one is \<open>None\<close>. Numbers are
  idealised as reals: the conversion layer only copies them.
\<close>

datatype jval =
    JUndefined
  | JNull
  | JBool bool
  | JNum real
  | JStr string
  | JArr "jval list"
  | JObj "string \<rightharpoonup> jval"

type_synonym jobj = "string \<rightharpoonup> jval"

text \<open>Property read \<open>o[k]\<close> on an object: \<open>undefined\<close> when the key is absent.\<close>

definition obj_prop :: "jobj \<Rightarrow> string \<Rightarrow> jval" where
  "obj_prop m k = (case m k of None \<Rightarrow> JUndefined | Some v \<Rightarrow> v)"

text \<open>
  Property read \<open>v?.k\<close> on an arbitrary value, for the keys the program reads this
  way (\<open>magentic\<close>, \<open>presetKey\<close>, \<open>preset\<close>): only objects carry them.
\<close>

fun jprop :: "jval \<Rightarrow> string \<Rightarrow> jval" where
  "jprop (JObj m) k = obj_prop m k"
| "jprop v k = JUndefined"

text \<open>\<open>a || b\<close> on an optional string: the empty string is falsy.\<close>

fun or_else :: "string option \<Rightarrow> string \<Rightarrow> string" where
  "or_else None d = d"
| "or_else (Some s) d = (if s = [] then d else s)"

record position =
  pos_x :: real
  pos_y :: real


text \<open>
  \<open>BaseExecutor\<close>: the fields every executor has, and \<open>ex_fields\<close> for the own
  properties of the subtypes (\<open>workflowId\<close>, \<open>requestType\<close>, \<open>agentRole\<close>,
  \<open>capabilities\<close>, \<open>systemPrompt\<close>, \<open>tools\<close>, \<open>planningStrategy\<close>, ...).
\<close>

record executor =
  ex_id :: string
  ex_type :: string
  ex_label :: "string option"
  ex_description :: "string option"
  ex_metadata :: "jobj option"
  ex_fields :: jobj

text \<open>
  \<open>EdgeCondition\<close> as \<open>reactFlowToWorkflow\<close> builds it:
  \<open>{type: "predicate", expression}\<close> or \<open>{type: "case", caseValue}\<close>.
\<close>

datatype EdgeCondition = Predicate jval | CaseCond jval

record edge =
  e_id :: string
  e_source :: string
  e_target :: string
  e_condition :: "EdgeCondition option"
  e_metadata :: "jobj option"

text \<open>
  \<open>EdgeGroup\<close>: the three routing variants, and \<open>OtherGroup\<close> for a group object whose
  \<open>type\<close> is none of them (the \<open>default\<close> arm of the switches on \<open>group.type\<close>).
  The last argument of each variant holds the remaining own properties.
\<close>

datatype EdgeGroup =
    FanInGroup string "string list" string jobj
  | FanOutGroup string string "string list" string jobj
  | SwitchCaseGroup string string string "(string \<times> string) list" jobj
  | OtherGroup string string jobj

fun group_id :: "EdgeGroup \<Rightarrow> string" where
  "group_id (FanInGroup i srcs tgt r) = i"
| "group_id (FanOutGroup i src tgts mode r) = i"
| "group_id (SwitchCaseGroup i src expr cases r) = i"
| "group_id (OtherGroup i t r) = i"

text \<open>The groups of the three routing variants.\<close>

fun knownGroup :: "EdgeGroup \<Rightarrow> bool" where
  "knownGroup (FanInGroup i srcs tgt r) = True"
| "knownGroup (FanOutGroup i src tgts mode r) = True"
| "knownGroup (SwitchCaseGroup i src expr cases r) = True"
| "knownGroup (OtherGroup i t r) = False"

record wf_custom =
  cu_nodePositions :: "(string \<rightharpoonup> position) option"
  cu_rest :: jobj

record wf_metadata =
  md_createdAt :: "string option"
  md_custom :: "wf_custom option"
  md_nodePositions :: "(string \<rightharpoonup> position) option"
  md_rest :: jobj

record workflow =
  wf_id :: string
  wf_name :: "string option"
  wf_version :: "string option"
  wf_description :: "string option"
  wf_executors :: "executor list"
  wf_edges :: "edge list"
  wf_edgeGroups :: "EdgeGroup list option"
  wf_metadata :: "wf_metadata option"

subsection \<open>The canvas graph\<close>

record handles =
  h_target :: bool
  h_source :: bool
  h_sourceCount :: "nat option"
  h_targetCount :: "nat option"
  h_caseCount :: "nat option"


text \<open>
  \<open>WorkflowNodeData\<close> is a union that the program probes by property
  (\<open>data.variant\<close>, \<open>data.executor\<close>, \<open>"group" in data\<close>): one record with the
  probed properties optional, \<open>nd_rest\<close> for everything else (status, content, ...).
\<close>

record node_data =
  nd_variant :: string
  nd_handles :: handles
  nd_executor :: "executor option"
  nd_executorType :: "string option"
  nd_label :: "string option"
  nd_description :: "string option"
  nd_group :: "EdgeGroup option"
  nd_rest :: jobj

record rf_node =
  n_id :: string
  n_type :: "string option"
  n_position :: position
  n_data :: node_data

record rf_edge =
  re_id :: string
  re_source :: string
  re_target :: string
  re_type :: "string option"
  re_data :: "jobj option"

section \<open>Magentic presets\<close>

record preset =
  p_key :: string
  p_label :: string
  p_description :: string
  p_agentRole :: string
  p_capabilities :: "string list"
  p_systemPrompt :: string
  p_toolIds :: "string list option"

definition MAGENTIC_AGENT_PRESETS :: "preset list" where
  "MAGENTIC_AGENT_PRESETS = [
     \<lparr>p_key = ''planner'', p_label = ''Planner Agent'',
      p_description = ''Creates task plans, updates task ledger, assigns agents.'',
      p_agentRole = ''planner'',
      p_capabilities = [''planning'', ''fact-gathering'', ''assignment''],
      p_systemPrompt = ''You are the planning specialist. Break down the task into actionable steps, keep the facts and plan ledgers updated, and assign the next best agent.'',
      p_toolIds = Some [''magentic-task-ledger'', ''magentic-progress-ledger'']\<rparr>,
     \<lparr>p_key = ''web'', p_label = ''Web Surfer Agent'',
      p_description = ''Searches and summarizes web sources to gather external facts.'',
      p_agentRole = ''web-surfer'',
      p_capabilities = [''web-search'', ''summarization''],
      p_systemPrompt = ''You are the web research specialist. Use browsing tools to gather and summarise authoritative information that helps the team.'',
      p_toolIds = Some [''web-browser'', ''http-client'']\<rparr>,
     \<lparr>p_key = ''coder'', p_label = ''Coder Agent'',
      p_description = ''Writes and runs code to fulfil assigned subtasks.'',
      p_agentRole = ''coder'',
      p_capabilities = [''code-generation'', ''code-execution''],
      p_systemPrompt = ''You are responsible for writing and executing code to achieve the assigned goal. Produce correct, well-tested programs and explain results.'',
      p_toolIds = Some [''hosted-code-interpreter'']\<rparr>,
     \<lparr>p_key = ''critic'', p_label = ''Critic Agent'',
      p_description = ''Reviews work-in-progress and ensures quality before completion.'',
      p_agentRole = ''critic'',
      p_capabilities = [''review'', ''quality-assurance''],
      p_systemPrompt = ''Review teammate output for accuracy, completeness, and adherence to plan. Flag issues and suggest improvements.'',
      p_toolIds = Some [''analysis-notes'']\<rparr>]"

text \<open>
  \<open>MAGENTIC_AGENT_PRESET_MAP\<close>: the \<open>reduce\<close> that assigns \<open>acc[preset.key] = preset\<close>
  for each preset in turn.
\<close>

definition MAGENTIC_AGENT_PRESET_MAP :: "string \<rightharpoonup> preset" where
  "MAGENTIC_AGENT_PRESET_MAP =
     fold (\<lambda>p acc. acc(p_key p \<mapsto> p)) MAGENTIC_AGENT_PRESETS Map.empty"

section \<open>The executor factory\<close>

record create_options =
  opt_label :: "string option"
  opt_presetKey :: "string option"

definition str_arr :: "string list \<Rightarrow> jval" where
  "str_arr xs = JArr (map JStr xs)"

text \<open>\<open>toolIds?.map((toolId) => ({ toolId, enabled: true }))\<close>\<close>

definition tool_refs :: "string list option \<Rightarrow> jval" where
  "tool_refs ids =
     (case ids of
        None \<Rightarrow> JUndefined
      | Some xs \<Rightarrow>
          JArr (map (\<lambda>t. JObj [''toolId'' \<mapsto> JStr t, ''enabled'' \<mapsto> JBool True]) xs))"

text \<open>
  The preset the magentic-agent arm selects:
  \<open>options?.presetKey && MAP[options.presetKey] ? MAP[options.presetKey] : undefined\<close>.
\<close>

definition selectPreset :: "create_options option \<Rightarrow> preset option" where
  "selectPreset options =
     (case options of
        None \<Rightarrow> None
      | Some opts \<Rightarrow>
          (case opt_presetKey opts of
             None \<Rightarrow> None
           | Some k \<Rightarrow> (if k = [] then None else MAGENTIC_AGENT_PRESET_MAP k)))"

definition createExecutorFromNodeType ::
  "string \<Rightarrow> string \<Rightarrow> string option \<Rightarrow> create_options option \<Rightarrow> executor" where
  "createExecutorFromNodeType nodeType ident label options =
    (if nodeType = ''function-executor'' then
       \<lparr>ex_id = ident, ex_type = ''function-executor'',
        ex_label = Some (or_else label ''Function Executor''),
        ex_description = Some ''Execute a function as a workflow node'',
        ex_metadata = None, ex_fields = Map.empty\<rparr>
     else if nodeType = ''agent-executor'' then
       \<lparr>ex_id = ident, ex_type = ''agent-executor'',
        ex_label = Some (or_else label ''Agent Executor''),
        ex_description = Some ''Use an AI agent to process messages'',
        ex_metadata = None, ex_fields = Map.empty\<rparr>
     else if nodeType = ''workflow-executor'' then
       \<lparr>ex_id = ident, ex_type = ''workflow-executor'',
        ex_label = Some (or_else label ''Workflow Executor''),
        ex_description = Some ''Nest another workflow as an executor'',
        ex_metadata = None, ex_fields = [''workflowId'' \<mapsto> JStr '''']\<rparr>
     else if nodeType = ''request-info-executor'' then
       \<lparr>ex_id = ident, ex_type = ''request-info-executor'',
        ex_label = Some (or_else label ''Request Info Executor''),
        ex_description = Some ''Gateway for external information requests'',
        ex_metadata = None, ex_fields = [''requestType'' \<mapsto> JStr '''']\<rparr>
     else if nodeType = ''magentic-orchestrator-executor'' then
       \<lparr>ex_id = ident, ex_type = ''magentic-orchestrator-executor'',
        ex_label = Some (or_else label ''Magentic Orchestrator''),
        ex_description =
          Some ''Coordinates Magentic agents, planning and routing messages'',
        ex_metadata = Some
          [''source'' \<mapsto> JStr ''agent-framework'',
           ''magentic'' \<mapsto> JObj
             [''presetKey'' \<mapsto> JStr ''orchestrator'',
              ''planningStrategy'' \<mapsto> JStr ''adaptive'',
              ''progressTracking'' \<mapsto> JBool True,
              ''humanInTheLoop'' \<mapsto> JBool False]],
        ex_fields =
          [''planningStrategy'' \<mapsto> JStr ''adaptive'',
           ''progressTracking'' \<mapsto> JBool True,
           ''humanInTheLoop'' \<mapsto> JBool False]\<rparr>
     else if nodeType = ''magentic-agent-executor'' then
       (let preset = selectPreset options;
            agentRole = or_else (map_option p_agentRole preset) ''generalist''
        in
        \<lparr>ex_id = ident, ex_type = ''magentic-agent-executor'',
         ex_label = Some (or_else label
           (or_else (map_option p_label preset) ''Magentic Agent'')),
         ex_description = Some (or_else (map_option p_description preset)
           ''Specialised Magentic agent that collaborates under the orchestrator''),
         ex_metadata = Some
           [''source'' \<mapsto> JStr ''agent-framework'',
            ''magentic'' \<mapsto> JObj
              [''presetKey'' \<mapsto>
                 (case preset of None \<Rightarrow> JNull | Some p \<Rightarrow> JStr (p_key p)),
               ''agentRole'' \<mapsto> JStr agentRole,
               ''capabilities'' \<mapsto>
                 (case preset of None \<Rightarrow> JArr [] | Some p \<Rightarrow> str_arr (p_capabilities p)),
               ''toolIds'' \<mapsto>
                 (case Option.bind preset p_toolIds of
                    None \<Rightarrow> JArr [] | Some ts \<Rightarrow> str_arr ts)]],
         ex_fields =
           [''agentRole'' \<mapsto> JStr agentRole,
            ''capabilities'' \<mapsto>
              (case preset of None \<Rightarrow> JUndefined | Some p \<Rightarrow> str_arr (p_capabilities p)),
            ''systemPrompt'' \<mapsto>
              (case preset of None \<Rightarrow> JUndefined | Some p \<Rightarrow> JStr (p_systemPrompt p)),
            ''tools'' \<mapsto> tool_refs (Option.bind preset p_toolIds)]\<rparr>)
     else
       \<lparr>ex_id = ident, ex_type = ''executor'',
        ex_label = Some (or_else label ''Executor''),
        ex_description = Some ''Base executor for processing messages'',
        ex_metadata = None, ex_fields = Map.empty\<rparr>)"

text \<open>The node types for which the factory has an arm of its own.\<close>

definition knownNodeTypes :: "string list" where
  "knownNodeTypes =
     [''function-executor'', ''agent-executor'', ''workflow-executor'',
      ''request-info-executor'', ''magentic-orchestrator-executor'',
      ''magentic-agent-executor'']"


section \<open>The executor factory is total\<close>

lemma createExecutor_id:
  "ex_id (createExecutorFromNodeType t i l opts) = i"
  by (simp add: createExecutorFromNodeType_def Let_def)

lemma createExecutor_type:
  "ex_type (createExecutorFromNodeType t i l opts) =
     (if t \<in> set knownNodeTypes then t else ''executor'')"
  by (simp add: createExecutorFromNodeType_def knownNodeTypes_def Let_def)

text \<open>
  Claim C4. \<open>createExecutorFromNodeType\<close> has no failing branch: it is a total function
  that returns an executor for every node-type string, id, label and options (every
  optional read in the source is guarded by \<open>?.\<close>, \<open>||\<close> or \<open>??\<close>). The returned
  executor carries the supplied id; for a node type outside the known set its \<open>type\<close> is
  the generic base type \<open>executor\<close>, and for a known node type it is that type.
\<close>

theorem createExecutorFromNodeType_total:
  "ex_id (createExecutorFromNodeType t i l opts) = i \<and>
   (t \<notin> set knownNodeTypes \<longrightarrow>
      ex_type (createExecutorFromNodeType t i l opts) = ''executor'') \<and>
   (t \<in> set knownNodeTypes \<longrightarrow>
      ex_type (createExecutorFromNodeType t i l opts) = t)"
  by (simp add: createExecutor_id createExecutor_type)

theorem createExecutorFromNodeType_total_witness:
  "ex_id (createExecutorFromNodeType ''unknown-type'' ''default-1'' None None) = ''default-1'' \<and>
   ex_type (createExecutorFromNodeType ''unknown-type'' ''default-1'' None None) = ''executor'' \<and>
   ex_type (createExecutorFromNodeType ''workflow-executor'' ''workflow-1'' None None)
     = ''workflow-executor''"
  using createExecutorFromNodeType_total [of "''unknown-type''" "''default-1''" None None]
    createExecutorFromNodeType_total [of "''workflow-executor''" "''workflow-1''" None None]
  by (simp add: knownNodeTypes_def)

subsection \<open>Example data\<close>

text \<open>
  An executor without type-specific fields, the executor node of the repository's test
  "should preserve node positions in metadata", and an edge without condition.
\<close>

definition baseExecutor :: "string \<Rightarrow> string \<Rightarrow> string option \<Rightarrow> executor" where
  "baseExecutor i t l =
     \<lparr>ex_id = i, ex_type = t, ex_label = l, ex_description = None,
      ex_metadata = None, ex_fields = Map.empty\<rparr>"


definition plainEdge :: "string \<Rightarrow> string \<Rightarrow> string \<Rightarrow> edge" where
  "plainEdge i s t =
     \<lparr>e_id = i, e_source = s, e_target = t, e_condition = None, e_metadata = None\<rparr>"

section \<open>The magentic scaffold\<close>


text \<open>
  \<open>findPresetKey\<close>:
  \<open>magentic?.presetKey ?? magentic?.preset ?? undefined\<close>, where \<open>magentic\<close> is
  \<open>node.data.executor?.metadata?.magentic\<close>; \<open>??\<close> passes over \<open>null\<close> and
  \<open>undefined\<close>.
\<close>

definition nullish :: "jval \<Rightarrow> bool" where
  "nullish v = (v = JUndefined \<or> v = JNull)"

definition findPresetKey :: "rf_node \<Rightarrow> jval" where
  "findPresetKey node =
     (case nd_executor (n_data node) of
        None \<Rightarrow> JUndefined
      | Some ex \<Rightarrow>
          (case ex_metadata ex of
             None \<Rightarrow> JUndefined
           | Some metadata \<Rightarrow>
               (let magentic = obj_prop metadata ''magentic'';
                    presetKey = jprop magentic ''presetKey'';
                    preset = jprop magentic ''preset''
                in if \<not> nullish presetKey then presetKey
                   else if \<not> nullish preset then preset
                   else JUndefined)))"
















subsection \<open>The scaffold is an ensure operation\<close>


definition nsig :: "rf_node \<Rightarrow> string \<times> string option \<times> jval" where
  "nsig n = (n_id n, n_type n, findPresetKey n)"




definition has_edge :: "rf_edge list \<Rightarrow> string \<Rightarrow> string \<Rightarrow> bool" where
  "has_edge es s t = list_ex (\<lambda>e. re_source e = s \<and> re_target e = t) es"



lemma find_map_sig: "find P (map f xs) = map_option f (find (\<lambda>x. P (f x)) xs)"
  by (induction xs) auto





















abbreviation sigs :: "(string \<times> rf_node) list \<Rightarrow> (string \<times> string option \<times> jval) list" where
  "sigs m \<equiv> map (\<lambda>kv. nsig (snd kv)) m"



lemma has_edge_append: "has_edge es s t \<Longrightarrow> has_edge (es @ es') s t"
  by (auto simp: has_edge_def list_ex_iff)













lemma sigs_values: "sigs m = map nsig (map snd m)"
  by simp



































subsection \<open>Examples\<close>





















subsection \<open>Applying the scaffold twice\<close>




section \<open>Validation\<close>

text \<open>
  Modelled from the spec: the validator (\<open>lib/workflow/export/validator\<close>) is not among
  the sources; only calls of \<open>validateWorkflowSchema\<close> and
  \<open>validateWorkflowExtended\<close> are. The report types follow section 4.5 of the
  specification; an error is a schema violation or a connectivity error, which names the
  edge and the ids the edge refers to that are not executors.
\<close>

datatype validation_error =
    SchemaViolation string
  | ConnectivityError string "string list"

record schema_report =
  sr_valid :: bool
  sr_errors :: "validation_error list"

record validation_report =
  vr_valid :: bool
  vr_errors :: "validation_error list"
  vr_typeErrors :: "string list"
  vr_warnings :: "string list"
  vr_connectivityWarnings :: "string list"

text \<open>
  Modelled from the spec: the schema check. Required fields are present (an id, a source
  and a target are not empty) and discriminants are in their closed sets (the seven
  executor types of section 3, the three edge-group variants).
\<close>

definition executorTypes :: "string list" where
  "executorTypes =
     [''executor'', ''function-executor'', ''agent-executor'', ''magentic-agent-executor'',
      ''magentic-orchestrator-executor'', ''workflow-executor'', ''request-info-executor'']"

definition executorSchemaErrors :: "executor \<Rightarrow> validation_error list" where
  "executorSchemaErrors ex =
     (if ex_id ex = [] then [SchemaViolation ''executor: id is required''] else []) @
     (if ex_type ex \<in> set executorTypes then []
      else [SchemaViolation (''executor '' @ ex_id ex @ '': unknown type'')])"

definition edgeSchemaErrors :: "edge \<Rightarrow> validation_error list" where
  "edgeSchemaErrors e =
     (if e_id e = [] then [SchemaViolation ''edge: id is required''] else []) @
     (if e_source e = [] then [SchemaViolation (''edge '' @ e_id e @ '': source is required'')]
      else []) @
     (if e_target e = [] then [SchemaViolation (''edge '' @ e_id e @ '': target is required'')]
      else [])"

definition groupSchemaErrors :: "EdgeGroup \<Rightarrow> validation_error list" where
  "groupSchemaErrors g =
     (if knownGroup g then []
      else [SchemaViolation (''edge group '' @ group_id g @ '': unknown type'')])"

definition schemaErrors :: "workflow \<Rightarrow> validation_error list" where
  "schemaErrors d =
     concat (map executorSchemaErrors (wf_executors d)) @
     concat (map edgeSchemaErrors (wf_edges d)) @
     concat (map groupSchemaErrors
               (case wf_edgeGroups d of None \<Rightarrow> [] | Some gs \<Rightarrow> gs))"

definition validateSchema :: "workflow \<Rightarrow> schema_report" where
  "validateSchema d = \<lparr>sr_valid = (schemaErrors d = []), sr_errors = schemaErrors d\<rparr>"

text \<open>
  Modelled from the spec: "every edge's source/target must reference an existing executor
  id (else a connectivity error)": one connectivity error for an edge with a dangling
  end, carrying the edge's id and the dangling ids. "Executors reachable from no edge and
  reaching no edge are flagged as a connectivity warning."
\<close>

definition edgeConnectivityError :: "string list \<Rightarrow> edge \<Rightarrow> validation_error option" where
  "edgeConnectivityError ids e =
     (let missing = filter (\<lambda>i. i \<notin> set ids) [e_source e, e_target e]
      in if missing = [] then None else Some (ConnectivityError (e_id e) missing))"

definition connectivityErrors :: "workflow \<Rightarrow> validation_error list" where
  "connectivityErrors d =
     List.map_filter (edgeConnectivityError (map ex_id (wf_executors d))) (wf_edges d)"

definition connectivityWarnings :: "workflow \<Rightarrow> string list" where
  "connectivityWarnings d =
     map ex_id
       (filter (\<lambda>ex. \<not> list_ex (\<lambda>e. e_source e = ex_id ex \<or> e_target e = ex_id ex)
                             (wf_edges d))
          (wf_executors d))"

text \<open>
  Modelled from the spec: the type check the specification gives ("workflow-executor must
  reference a non-empty workflowId"), and the extended report: "valid is true iff errors
  and typeErrors are both empty; warnings never affect valid". The specification names no
  source of warnings other than the connectivity warnings.
\<close>

definition executorTypeErrors :: "executor \<Rightarrow> string list" where
  "executorTypeErrors ex =
     (if ex_type ex = ''workflow-executor'' \<and>
         (case ex_fields ex ''workflowId'' of Some (JStr s) \<Rightarrow> s = [] | _ \<Rightarrow> True)
      then [''workflow-executor '' @ ex_id ex @ '': workflowId is required'']
      else [])"

definition validateExtended :: "workflow \<Rightarrow> validation_report" where
  "validateExtended d =
     (let errors = schemaErrors d @ connectivityErrors d;
          typeErrors = concat (map executorTypeErrors (wf_executors d))
      in \<lparr>vr_valid = (errors = [] \<and> typeErrors = []),
          vr_errors = errors,
          vr_typeErrors = typeErrors,
          vr_warnings = [],
          vr_connectivityWarnings = connectivityWarnings d\<rparr>)"

text \<open>
  The connectivity errors of a report, and a document with one more edge.
\<close>

fun isConnectivityError :: "validation_error \<Rightarrow> bool" where
  "isConnectivityError (ConnectivityError i missing) = True"
| "isConnectivityError (SchemaViolation s) = False"

fun errorEdgeId :: "validation_error \<Rightarrow> string option" where
  "errorEdgeId (ConnectivityError i missing) = Some i"
| "errorEdgeId (SchemaViolation s) = None"

definition addEdge :: "edge list \<Rightarrow> edge \<Rightarrow> edge list \<Rightarrow> workflow \<Rightarrow> workflow" where
  "addEdge before e after d = d\<lparr>wf_edges := before @ e # after\<rparr>"

lemma map_filter_append:
  "List.map_filter f (xs @ ys) = List.map_filter f xs @ List.map_filter f ys"
  by (simp add: List.map_filter_def)

lemma filter_conn_schema: "filter isConnectivityError (schemaErrors d) = []"
  by (auto simp: schemaErrors_def executorSchemaErrors_def edgeSchemaErrors_def
      groupSchemaErrors_def filter_concat filter_empty_conv split: option.splits)

lemma filter_conn_connectivity:
  "filter isConnectivityError (connectivityErrors d) = connectivityErrors d"
  by (auto simp: connectivityErrors_def List.map_filter_def edgeConnectivityError_def Let_def
      filter_id_conv)

text \<open>
  Claim C5. For every document that \<open>validateExtended\<close> reports valid, adding one edge
  (anywhere in the edge list) whose target is not the id of an executor gives a document
  that is reported invalid, and the report, which had no connectivity error before, now
  has exactly one: it carries the id of the added edge and names the dangling target.
\<close>

theorem dangling_edge_invalidates:
  assumes "vr_valid (validateExtended d)"
      and "e_target e \<notin> set (map ex_id (wf_executors d))"
      and "wf_edges d = before @ after"
  shows "\<not> vr_valid (validateExtended (addEdge before e after d)) \<and>
         filter isConnectivityError (vr_errors (validateExtended d)) = [] \<and>
         (\<exists>missing. e_target e \<in> set missing \<and>
            filter isConnectivityError (vr_errors (validateExtended (addEdge before e after d))) =
              [ConnectivityError (e_id e) missing])"
proof -
  let ?ids = "map ex_id (wf_executors d)"
  have v: "schemaErrors d = []" "connectivityErrors d = []"
    using assms(1) by (simp_all add: validateExtended_def Let_def)
  have old: "List.map_filter (edgeConnectivityError ?ids) before = []"
            "List.map_filter (edgeConnectivityError ?ids) after = []"
    using v(2) assms(3) by (simp_all add: connectivityErrors_def map_filter_append)
  let ?missing = "filter (\<lambda>i. i \<notin> set ?ids) [e_source e, e_target e]"
  have m: "e_target e \<in> set ?missing" using assms(2) by simp
  then have ne: "?missing \<noteq> []" by (metis empty_iff empty_set)
  have new: "edgeConnectivityError ?ids e = Some (ConnectivityError (e_id e) ?missing)"
    using ne by (simp add: edgeConnectivityError_def Let_def)
  have c: "connectivityErrors (addEdge before e after d) = [ConnectivityError (e_id e) ?missing]"
    using old new
    by (simp add: connectivityErrors_def addEdge_def map_filter_append List.map_filter_simps)
  have f: "filter isConnectivityError (vr_errors (validateExtended (addEdge before e after d)))
           = [ConnectivityError (e_id e) ?missing]"
    by (simp add: validateExtended_def Let_def filter_conn_schema c)
  have n: "\<not> vr_valid (validateExtended (addEdge before e after d))"
    by (simp add: validateExtended_def Let_def c)
  have o: "filter isConnectivityError (vr_errors (validateExtended d)) = []"
    by (simp add: validateExtended_def Let_def v)
  show ?thesis using n o f m by blast
qed

text \<open>
  The scenario of the specification: executors \<open>A\<close> and \<open>B\<close> and the edge \<open>e1\<close>
  from \<open>A\<close> to \<open>B\<close>.
\<close>

definition scenarioDocument :: workflow where
  "scenarioDocument =
     \<lparr>wf_id = ''workflow-1'', wf_name = None, wf_version = None, wf_description = None,
      wf_executors = [baseExecutor ''A'' ''executor'' None, baseExecutor ''B'' ''executor'' None],
      wf_edges = [plainEdge ''e1'' ''A'' ''B''],
      wf_edgeGroups = None, wf_metadata = None\<rparr>"

theorem dangling_edge_invalidates_witness:
  "vr_valid (validateExtended scenarioDocument) \<and>
   vr_connectivityWarnings (validateExtended scenarioDocument) = [] \<and>
   \<not> vr_valid (validateExtended
       (addEdge [plainEdge ''e1'' ''A'' ''B''] (plainEdge ''e2'' ''A'' ''C'') [] scenarioDocument)) \<and>
   filter isConnectivityError (vr_errors (validateExtended
       (addEdge [plainEdge ''e1'' ''A'' ''B''] (plainEdge ''e2'' ''A'' ''C'') [] scenarioDocument)))
     = [ConnectivityError ''e2'' [''C'']]"
proof -
  have v: "vr_valid (validateExtended scenarioDocument)"
    by (simp add: validateExtended_def scenarioDocument_def schemaErrors_def
        connectivityErrors_def executorSchemaErrors_def edgeSchemaErrors_def
        edgeConnectivityError_def executorTypeErrors_def executorTypes_def baseExecutor_def
        plainEdge_def List.map_filter_simps Let_def)
  have w: "vr_connectivityWarnings (validateExtended scenarioDocument) = []"
    by (simp add: validateExtended_def scenarioDocument_def connectivityWarnings_def
        baseExecutor_def plainEdge_def Let_def)
  have t: "e_target (plainEdge ''e2'' ''A'' ''C'') \<notin> set (map ex_id (wf_executors scenarioDocument))"
    by (simp add: scenarioDocument_def plainEdge_def baseExecutor_def)
  have e: "wf_edges scenarioDocument = [plainEdge ''e1'' ''A'' ''B''] @ []"
    by (simp add: scenarioDocument_def)
  have f: "filter isConnectivityError (vr_errors (validateExtended
       (addEdge [plainEdge ''e1'' ''A'' ''B''] (plainEdge ''e2'' ''A'' ''C'') [] scenarioDocument)))
     = [ConnectivityError ''e2'' [''C'']]"
    by (simp add: validateExtended_def scenarioDocument_def schemaErrors_def addEdge_def
        connectivityErrors_def executorSchemaErrors_def edgeSchemaErrors_def
        edgeConnectivityError_def executorTypes_def baseExecutor_def
        plainEdge_def List.map_filter_simps Let_def)
  show ?thesis
    using v w f dangling_edge_invalidates [OF v t e] by simp
qed

section \<open>The graph codec\<close>

text \<open>
  \<open>reactFlowToWorkflow\<close> writes into objects that its arguments refer to, and both
  conversions hand objects of their input on to their result. What they compute therefore
  depends on which objects are the same object, and they are modelled, statement by
  statement, on a store of mutable objects.
\<close>

subsection \<open>Objects\<close>

text \<open>
  Objects are identified by their address in a store; a value is a primitive, a reference
  to an object of the store, or a built-in object of the runtime (\<open>Object.prototype\<close>
  and the functions that are its members), which is known by its name only. A cell of the
  store is an object (its own properties, in insertion order), an array, or an object
  whose prototype has been set: the prototype of an \<open>HObj\<close> is \<open>Object.prototype\<close>,
  that of an \<open>HObjP\<close> is its second argument. A new object gets the next free address.
\<close>

datatype hval =
    HUndefined
  | HNull
  | HBool bool
  | HNum real
  | HStr string
  | HRef nat
  | HBuiltin string

datatype hcell =
    HObj "(string \<times> hval) list"
  | HArr "hval list"
  | HObjP "(string \<times> hval) list" hval

type_synonym store = "hcell list"

fun htruthy :: "hval \<Rightarrow> bool" where
  "htruthy HUndefined = False"
| "htruthy HNull = False"
| "htruthy (HBool b) = b"
| "htruthy (HNum n) = (n \<noteq> 0)"
| "htruthy (HStr s) = (s \<noteq> [])"
| "htruthy (HRef a) = True"
| "htruthy (HBuiltin b) = True"

definition hnullish :: "hval \<Rightarrow> bool" where
  "hnullish v = (v = HUndefined \<or> v = HNull)"

definition alloc :: "store \<Rightarrow> hcell \<Rightarrow> store \<times> hval" where
  "alloc s c = (s @ [c], HRef (length s))"

text \<open>
  \<open>Object.prototype\<close>, and the names of its members other than the accessor
  \<open>__proto__\<close>: every object whose prototype chain ends in \<open>Object.prototype\<close> has a
  function under each of these names.
\<close>

definition objectPrototype :: hval where
  "objectPrototype = HBuiltin ''Object.prototype''"

definition objectPrototypeMembers :: "string list" where
  "objectPrototypeMembers =
     [''constructor'', ''hasOwnProperty'', ''isPrototypeOf'', ''propertyIsEnumerable'',
      ''toLocaleString'', ''toString'', ''valueOf'', ''__defineGetter__'',
      ''__defineSetter__'', ''__lookupGetter__'', ''__lookupSetter__'']"

text \<open>
  The search for a property along a prototype chain, starting at the object \<open>v\<close>: it
  ends at the first object that has the property as its own, at \<open>Object.prototype\<close>, at
  a \<open>null\<close> prototype, or beyond what is modelled (an array or another built-in object
  as prototype, a dangling address, a chain longer than the store).
\<close>

datatype found = Found hval | AtObjectPrototype | AtNull | Beyond

fun protoChain :: "nat \<Rightarrow> store \<Rightarrow> hval \<Rightarrow> string \<Rightarrow> found" where
  "protoChain 0 s v k = Beyond"
| "protoChain (Suc n) s v k =
     (case v of
        HRef a \<Rightarrow>
          (if a < length s then
             (case s ! a of
                HObj fs \<Rightarrow> (case map_of fs k of Some x \<Rightarrow> Found x | None \<Rightarrow> AtObjectPrototype)
              | HObjP fs p \<Rightarrow> (case map_of fs k of Some x \<Rightarrow> Found x | None \<Rightarrow> protoChain n s p k)
              | HArr xs \<Rightarrow> Beyond)
           else Beyond)
      | HNull \<Rightarrow> AtNull
      | HBuiltin b \<Rightarrow> (if b = ''Object.prototype'' then AtObjectPrototype else Beyond)
      | _ \<Rightarrow> Beyond)"

text \<open>
  The own property \<open>k\<close> of an object, \<open>undefined\<close> when it has none; of an array, only
  its \<open>length\<close>.
\<close>

fun fieldOf :: "hcell \<Rightarrow> string \<Rightarrow> hval" where
  "fieldOf (HObj fs) k = (case map_of fs k of None \<Rightarrow> HUndefined | Some v \<Rightarrow> v)"
| "fieldOf (HObjP fs p) k = (case map_of fs k of None \<Rightarrow> HUndefined | Some v \<Rightarrow> v)"
| "fieldOf (HArr xs) k = (if k = ''length'' then HNum (real (length xs)) else HUndefined)"

text \<open>
  The primitive steps. \<open>None\<close> is a thrown \<open>TypeError\<close>, or one of the cases that are
  left out of the model and named below.

  \<open>getProp\<close> is \<open>v.k\<close> for the property names that the program reads by name; none of
  them is the name of a member of \<open>Object.prototype\<close>, so that on an object with the
  standard prototype the result is the own property. It throws on \<open>undefined\<close> and
  \<open>null\<close>. Left out: the properties of built-in objects.
  \<open>optProp\<close> is \<open>v?.k\<close>.

  \<open>setProp\<close> is \<open>v.k = x\<close>, again for the names the program writes by name; it changes
  the object in place. In module code it throws unless \<open>v\<close> is an object. Left out: named
  properties of arrays and of built-in objects.

  \<open>spread\<close> gives the properties that \<open>{...v}\<close> copies: the own properties of an
  object, none for any other value. Left out: arrays and non-empty strings.
\<close>

fun getProp :: "store \<Rightarrow> hval \<Rightarrow> string \<Rightarrow> hval option" where
  "getProp s HUndefined k = None"
| "getProp s HNull k = None"
| "getProp s (HRef a) k =
     (if a < length s then
        (case s ! a of
           HObjP fs p \<Rightarrow>
             (case protoChain (Suc (length s)) s (HRef a) k of
                Found x \<Rightarrow> Some x
              | AtObjectPrototype \<Rightarrow> Some HUndefined
              | AtNull \<Rightarrow> Some HUndefined
              | Beyond \<Rightarrow> None)
         | c \<Rightarrow> Some (fieldOf c k))
      else None)"
| "getProp s (HBuiltin b) k = None"
| "getProp s (HStr x) k = Some (if k = ''length'' then HNum (real (length x)) else HUndefined)"
| "getProp s v k = Some HUndefined"

fun optProp :: "store \<Rightarrow> hval \<Rightarrow> string \<Rightarrow> hval option" where
  "optProp s HUndefined k = Some HUndefined"
| "optProp s HNull k = Some HUndefined"
| "optProp s v k = getProp s v k"

fun setProp :: "store \<Rightarrow> hval \<Rightarrow> string \<Rightarrow> hval \<Rightarrow> store option" where
  "setProp s (HRef a) k x =
     (if a < length s then
        (case s ! a of
           HObj fs \<Rightarrow> Some (s[a := HObj (AList.update k x fs)])
         | HObjP fs p \<Rightarrow>
             (if map_of fs k = None \<and> protoChain (Suc (length s)) s p k = Beyond then None
              else Some (s[a := HObjP (AList.update k x fs) p]))
         | HArr xs \<Rightarrow> None)
      else None)"
| "setProp s v k x = None"

fun spread :: "store \<Rightarrow> hval \<Rightarrow> (string \<times> hval) list option" where
  "spread s (HRef a) =
     (if a < length s then
        (case s ! a of HObj fs \<Rightarrow> Some fs | HObjP fs p \<Rightarrow> Some fs | HArr xs \<Rightarrow> None)
      else None)"
| "spread s (HStr str) = (if str = [] then Some [] else None)"
| "spread s v = Some []"

text \<open>
  Properties under a computed key. \<open>propertyKey\<close> is the key that a value used as
  \<open>o[v]\<close> stands for (left out: numbers and objects as keys).

  \<open>getKey\<close> is \<open>o[k]\<close> on an object: the own property, else the property of the first
  object of the prototype chain that has it, else what \<open>Object.prototype\<close> provides: under
  \<open>__proto__\<close> the prototype of \<open>o\<close>, under the name of a member that member, and
  \<open>undefined\<close> under any other name. Left out: primitives and built-in objects as \<open>o\<close>.
\<close>

fun propertyKey :: "hval \<Rightarrow> string option" where
  "propertyKey (HStr k) = Some k"
| "propertyKey HUndefined = Some ''undefined''"
| "propertyKey HNull = Some ''null''"
| "propertyKey (HBool b) = Some (if b then ''true'' else ''false'')"
| "propertyKey v = None"

definition inherited :: "hval \<Rightarrow> string \<Rightarrow> hval" where
  "inherited proto k =
     (if k = ''__proto__'' then proto
      else if k \<in> set objectPrototypeMembers then HBuiltin (''Object.prototype.'' @ k)
      else HUndefined)"

fun protoOf :: "hcell \<Rightarrow> hval" where
  "protoOf (HObj fs) = objectPrototype"
| "protoOf (HObjP fs p) = p"
| "protoOf (HArr xs) = HBuiltin ''Array.prototype''"

fun getKey :: "store \<Rightarrow> hval \<Rightarrow> string \<Rightarrow> hval option" where
  "getKey s (HRef a) k =
     (case protoChain (Suc (length s)) s (HRef a) k of
        Found x \<Rightarrow> Some x
      | AtObjectPrototype \<Rightarrow> Some (inherited (protoOf (s ! a)) k)
      | AtNull \<Rightarrow> Some HUndefined
      | Beyond \<Rightarrow> None)"
| "getKey s v k = None"

text \<open>
  \<open>o[k] = v\<close> on an object that the function has created and not yet stored anywhere,
  given as its own properties and its prototype. The assignment makes or replaces an own
  property, except when the key is inherited as the accessor \<open>__proto__\<close> of
  \<open>Object.prototype\<close>: then it replaces the prototype by \<open>v\<close> if \<open>v\<close> is an object or
  \<open>null\<close>, and does nothing otherwise.
\<close>

fun isObjectOrNull :: "hval \<Rightarrow> bool" where
  "isObjectOrNull (HRef a) = True"
| "isObjectOrNull (HBuiltin b) = True"
| "isObjectOrNull HNull = True"
| "isObjectOrNull v = False"

definition assignKey ::
  "store \<Rightarrow> (string \<times> hval) list \<times> hval \<Rightarrow> string \<Rightarrow> hval \<Rightarrow>
     ((string \<times> hval) list \<times> hval) option" where
  "assignKey s obj k v =
     (case obj of (own, proto) \<Rightarrow>
        if map_of own k \<noteq> None then Some (AList.update k v own, proto)
        else (case protoChain (Suc (length s)) s proto k of
                Found x \<Rightarrow> Some (AList.update k v own, proto)
              | AtNull \<Rightarrow> Some (AList.update k v own, proto)
              | AtObjectPrototype \<Rightarrow>
                  if k = ''__proto__'' then Some (own, if isObjectOrNull v then v else proto)
                  else Some (AList.update k v own, proto)
              | Beyond \<Rightarrow> None))"

text \<open>The cell of an object given as its own properties and its prototype.\<close>

definition cellOf :: "(string \<times> hval) list \<times> hval \<Rightarrow> hcell" where
  "cellOf obj =
     (case obj of (own, proto) \<Rightarrow>
        if proto = objectPrototype then HObj own else HObjP own proto)"

text \<open>The elements of an array, for \<open>for (const x of v)\<close>. Left out: other iterables.\<close>

fun elements :: "store \<Rightarrow> hval \<Rightarrow> hval list option" where
  "elements s (HRef a) =
     (if a < length s then (case s ! a of HArr xs \<Rightarrow> Some xs | _ \<Rightarrow> None) else None)"
| "elements s v = None"

subsection \<open>\<open>reactFlowToWorkflow\<close>\<close>

text \<open>
  \<open>isExecutorNodeData\<close> and \<open>isEdgeGroupNode\<close>, on the value of \<open>data.variant\<close>.
\<close>

definition isExecutorVariant :: "hval \<Rightarrow> bool" where
  "isExecutorVariant v =
     (v = HStr ''executor'' \<or> v = HStr ''function-executor'' \<or> v = HStr ''agent-executor'' \<or>
      v = HStr ''workflow-executor'' \<or> v = HStr ''request-info-executor'')"

definition isGroupVariant :: "hval \<Rightarrow> bool" where
  "isGroupVariant v = (v = HStr ''fan-in'' \<or> v = HStr ''fan-out'' \<or> v = HStr ''switch-case'')"

text \<open>
  \<open>nodeToExecutor\<close>: \<open>{ ...data.executor }\<close> is a new object with the properties of the
  payload's executor, so a property that holds a reference (\<open>metadata\<close>) holds the same
  reference in the copy.
\<close>

definition nodeToExecutor :: "store \<Rightarrow> hval \<Rightarrow> (store \<times> hval) option" where
  "nodeToExecutor s node = do {
     data \<leftarrow> getProp s node ''data'';
     variant \<leftarrow> getProp s data ''variant'';
     if \<not> isExecutorVariant variant then Some (s, HNull)
     else do {
       ex \<leftarrow> getProp s data ''executor'';
       if htruthy ex then do {
         fs \<leftarrow> spread s ex;
         Some (alloc s (HObj fs))
       } else do {
         i \<leftarrow> getProp s node ''id'';
         et \<leftarrow> getProp s data ''executorType'';
         l \<leftarrow> getProp s data ''label'';
         d \<leftarrow> getProp s data ''description'';
         Some (alloc s (HObj [(''id'', i),
                              (''type'', if htruthy et then et else HStr ''executor''),
                              (''label'', l), (''description'', d)]))
       }
     }
   }"

text \<open>
  \<open>if (!executor.metadata) executor.metadata = {}; executor.metadata.position =
  node.position\<close>: the second statement writes to whatever object \<open>executor.metadata\<close>
  refers to.
\<close>

definition stampPosition :: "store \<Rightarrow> hval \<Rightarrow> hval \<Rightarrow> store option" where
  "stampPosition s ex pos = do {
     md \<leftarrow> getProp s ex ''metadata'';
     s \<leftarrow> (if \<not> htruthy md
            then (case alloc s (HObj []) of (s1, m) \<Rightarrow> setProp s1 ex ''metadata'' m)
            else Some s);
     md \<leftarrow> getProp s ex ''metadata'';
     setProp s md ''position'' pos
   }"

text \<open>
  The first loop over the nodes. The array \<open>executors\<close> and the object
  \<open>nodePositions\<close> are local to the call until it returns; the model keeps their
  contents as values and allocates them when the document is built.
\<close>

fun nodesLoop ::
  "hval list \<Rightarrow> store \<times> hval list \<times> ((string \<times> hval) list \<times> hval) \<Rightarrow>
     (store \<times> hval list \<times> ((string \<times> hval) list \<times> hval)) option" where
  "nodesLoop [] st = Some st"
| "nodesLoop (node # rest) (s, executors, nodePositions) = do {
     i \<leftarrow> getProp s node ''id'';
     key \<leftarrow> propertyKey i;
     pos \<leftarrow> getProp s node ''position'';
     nodePositions \<leftarrow> assignKey s nodePositions key pos;
     data \<leftarrow> getProp s node ''data'';
     variant \<leftarrow> getProp s data ''variant'';
     if isExecutorVariant variant then do {
       (s1, ex) \<leftarrow> nodeToExecutor s node;
       if htruthy ex then do {
         s2 \<leftarrow> stampPosition s1 ex pos;
         nodesLoop rest (s2, executors @ [ex], nodePositions)
       } else nodesLoop rest (s1, executors, nodePositions)
     } else nodesLoop rest (s, executors, nodePositions)
   }"

text \<open>
  The callback of \<open>edges.map\<close>, and the \<open>map\<close> itself.
\<close>

definition convertEdge :: "store \<Rightarrow> hval \<Rightarrow> (store \<times> hval) option" where
  "convertEdge s edge = do {
     data \<leftarrow> getProp s edge ''data'';
     condition \<leftarrow> optProp s data ''condition'';
     (s1, edgeCondition) \<leftarrow>
       (if htruthy condition then do {
          t \<leftarrow> getProp s condition ''type'';
          if t = HStr ''predicate'' then do {
            e \<leftarrow> getProp s condition ''expression'';
            Some (alloc s (HObj [(''type'', HStr ''predicate''), (''expression'', e)]))
          } else if t = HStr ''case'' then do {
            v \<leftarrow> getProp s condition ''caseValue'';
            Some (alloc s (HObj [(''type'', HStr ''case''), (''caseValue'', v)]))
          } else Some (s, HUndefined)
        } else Some (s, HUndefined));
     i \<leftarrow> getProp s1 edge ''id'';
     src \<leftarrow> getProp s1 edge ''source'';
     tgt \<leftarrow> getProp s1 edge ''target'';
     fs \<leftarrow> spread s1 data;
     ty \<leftarrow> getProp s1 edge ''type'';
     (case alloc s1 (HObj (AList.update ''type'' ty fs)) of
        (s2, md) \<Rightarrow>
          Some (alloc s2 (HObj [(''id'', i), (''source'', src), (''target'', tgt),
                                (''condition'', edgeCondition), (''metadata'', md)])))
   }"

fun edgesLoop :: "hval list \<Rightarrow> store \<times> hval list \<Rightarrow> (store \<times> hval list) option" where
  "edgesLoop [] st = Some st"
| "edgesLoop (edge # rest) (s, workflowEdges) = do {
     (s1, e) \<leftarrow> convertEdge s edge;
     edgesLoop rest (s1, workflowEdges @ [e])
   }"

text \<open>
  The second loop over the nodes: \<open>nodeDataToEdgeGroup\<close> returns \<open>data.group\<close> as it
  is when the payload has a property \<open>group\<close>, and the loop keeps it when it is truthy.
\<close>

fun groupsLoop :: "store \<Rightarrow> hval list \<Rightarrow> hval list \<Rightarrow> hval list option" where
  "groupsLoop s [] edgeGroups = Some edgeGroups"
| "groupsLoop s (node # rest) edgeGroups = do {
     data \<leftarrow> getProp s node ''data'';
     variant \<leftarrow> getProp s data ''variant'';
     if isGroupVariant variant then do {
       g \<leftarrow> getProp s data ''group'';
       if htruthy g then groupsLoop s rest (edgeGroups @ [g])
       else groupsLoop s rest edgeGroups
     } else groupsLoop s rest edgeGroups
   }"

text \<open>
  The returned object. \<open>now\<close> is the value of \<open>new Date().toISOString()\<close> at the call.
  The same \<open>nodePositions\<close> object is referred to from \<open>metadata.custom\<close> and from
  \<open>metadata\<close> when it has an own property; otherwise neither refers to it and the empty
  \<open>custom\<close> is deleted.
\<close>

definition buildDocument ::
  "string \<Rightarrow> store \<Rightarrow> hval list \<Rightarrow> (string \<times> hval) list \<times> hval \<Rightarrow> hval list \<Rightarrow> hval list \<Rightarrow>
     string \<Rightarrow> hval \<Rightarrow> store \<times> hval" where
  "buildDocument now s executors nodePositions workflowEdges edgeGroups workflowId workflowName =
     (case alloc s (HArr executors) of (s1, executorsRef) \<Rightarrow>
      case alloc s1 (HArr workflowEdges) of (s2, edgesRef) \<Rightarrow>
      case (if length edgeGroups > 0 then alloc s2 (HArr edgeGroups) else (s2, HUndefined)) of
        (s3, groupsRef) \<Rightarrow>
      case alloc s3 (cellOf nodePositions) of (s4, positionsRef) \<Rightarrow>
      case alloc s4 (HObj (if fst nodePositions \<noteq> [] then [(''nodePositions'', positionsRef)]
                          else [])) of
        (s5, customRef) \<Rightarrow>
      case alloc s5 (HObj ((''createdAt'', HStr now) #
                            (if fst nodePositions \<noteq> []
                             then [(''custom'', customRef), (''nodePositions'', positionsRef)]
                             else []))) of
        (s6, metadataRef) \<Rightarrow>
      alloc s6 (HObj [(''id'', HStr workflowId), (''name'', workflowName),
                      (''executors'', executorsRef), (''edges'', edgesRef),
                      (''edgeGroups'', groupsRef), (''metadata'', metadataRef)]))"

text \<open>
  \<open>reactFlowToWorkflow\<close>, given the elements of the arrays \<open>nodes\<close> and \<open>edges\<close>, the
  document id, and the name (\<open>undefined\<close> when the argument is omitted).
\<close>

definition reactFlowToWorkflow ::
  "string \<Rightarrow> store \<Rightarrow> hval list \<Rightarrow> hval list \<Rightarrow> string \<Rightarrow> hval \<Rightarrow> (store \<times> hval) option" where
  "reactFlowToWorkflow now s nodes edges workflowId workflowName = do {
     (s1, executors, nodePositions) \<leftarrow> nodesLoop nodes (s, [], ([], objectPrototype));
     (s2, workflowEdges) \<leftarrow> edgesLoop edges (s1, []);
     edgeGroups \<leftarrow> groupsLoop s2 nodes [];
     Some (buildDocument now s2 executors nodePositions workflowEdges edgeGroups
             workflowId workflowName)
   }"

subsection \<open>\<open>workflowToReactFlow\<close>\<close>

text \<open>
  The position of an executor's node:
  \<open>workflow.metadata?.custom?.nodePositions ?? workflow.metadata?.nodePositions\<close> is the
  position object, and \<open>nodePositions?.[executor.id] || { x: 0, y: 0 }\<close> the position.
\<close>

definition executorPosition :: "store \<Rightarrow> hval \<Rightarrow> hval \<Rightarrow> (store \<times> hval) option" where
  "executorPosition s workflow executor = do {
     md \<leftarrow> getProp s workflow ''metadata'';
     custom \<leftarrow> optProp s md ''custom'';
     cnp \<leftarrow> optProp s custom ''nodePositions'';
     nodePositions \<leftarrow> (if hnullish cnp then optProp s md ''nodePositions'' else Some cnp);
     p \<leftarrow> (if hnullish nodePositions then Some HUndefined
          else do {
            i \<leftarrow> getProp s executor ''id'';
            key \<leftarrow> propertyKey i;
            getKey s nodePositions key
          });
     Some (if htruthy p then (s, p) else alloc s (HObj [(''x'', HNum 0), (''y'', HNum 0)]))
   }"

text \<open>
  \<open>executorToNodeData\<close>: the payload for an executor. It refers to the executor object
  itself. No arm of the switch on \<open>executor.type\<close> returns \<open>null\<close>; the two tests at the
  head of the \<open>default\<close> arm repeat cases that the switch has already taken.
\<close>

definition executorPayload ::
  "store \<Rightarrow> string \<Rightarrow> hval \<Rightarrow> hval option \<Rightarrow> (store \<times> hval) option" where
  "executorPayload s variant executor executorType = do {
     l \<leftarrow> getProp s executor ''label'';
     d \<leftarrow> getProp s executor ''description'';
     (case alloc s (HObj [(''target'', HBool True), (''source'', HBool True)]) of
        (s1, h) \<Rightarrow>
          Some (alloc s1 (HObj ([(''variant'', HStr variant), (''handles'', h),
                                 (''executor'', executor)] @
                                (case executorType of None \<Rightarrow> [] | Some t \<Rightarrow> [(''executorType'', t)]) @
                                [(''label'', l), (''description'', d)]))))
   }"

definition executorToNodeData :: "store \<Rightarrow> hval \<Rightarrow> (store \<times> hval) option" where
  "executorToNodeData s executor = do {
     t \<leftarrow> getProp s executor ''type'';
     if t = HStr ''function-executor'' then executorPayload s ''function-executor'' executor None
     else if t = HStr ''agent-executor'' then executorPayload s ''agent-executor'' executor None
     else if t = HStr ''magentic-agent-executor'' then
       executorPayload s ''agent-executor'' executor None
     else if t = HStr ''workflow-executor'' then
       executorPayload s ''workflow-executor'' executor None
     else if t = HStr ''request-info-executor'' then
       executorPayload s ''request-info-executor'' executor None
     else if t = HStr ''magentic-orchestrator-executor'' then
       executorPayload s ''executor'' executor (Some (HStr ''magentic-orchestrator-executor''))
     else executorPayload s ''executor'' executor
            (Some (if htruthy t then t else HStr ''executor''))
   }"

definition getNodeTypeFromExecutor :: "store \<Rightarrow> hval \<Rightarrow> hval option" where
  "getNodeTypeFromExecutor s executor = do {
     t \<leftarrow> getProp s executor ''type'';
     Some (if t = HStr ''function-executor'' \<or> t = HStr ''agent-executor'' \<or>
              t = HStr ''magentic-agent-executor'' \<or> t = HStr ''workflow-executor'' \<or>
              t = HStr ''request-info-executor'' \<or> t = HStr ''magentic-orchestrator-executor''
           then t else HStr ''executor'')
   }"

text \<open>The first loop: one node for every executor of the document.\<close>

fun executorNodes :: "hval \<Rightarrow> hval list \<Rightarrow> store \<times> hval list \<Rightarrow> (store \<times> hval list) option" where
  "executorNodes workflow [] st = Some st"
| "executorNodes workflow (executor # rest) (s, nodes) = do {
     (s1, position) \<leftarrow> executorPosition s workflow executor;
     (s2, nodeData) \<leftarrow> executorToNodeData s1 executor;
     if htruthy nodeData then do {
       i \<leftarrow> getProp s2 executor ''id'';
       t \<leftarrow> getNodeTypeFromExecutor s2 executor;
       (case alloc s2 (HObj [(''id'', i), (''type'', t), (''position'', position),
                             (''data'', nodeData)]) of
          (s3, node) \<Rightarrow> executorNodes workflow rest (s3, nodes @ [node]))
     } else executorNodes workflow rest (s2, nodes)
   }"

text \<open>
  \<open>edgeGroupToNodeData\<close>: the payload for an edge group of one of the three types, with
  the number of its sources, targets or cases, and \<open>null\<close> for any other group. The
  payload refers to the group object itself.
\<close>

definition groupPayload ::
  "store \<Rightarrow> string \<Rightarrow> string \<Rightarrow> string \<Rightarrow> hval \<Rightarrow> (store \<times> hval) option" where
  "groupPayload s variant countName members grp = do {
     ms \<leftarrow> getProp s grp members;
     n \<leftarrow> getProp s ms ''length'';
     (case alloc s (HObj [(''target'', HBool True), (''source'', HBool True), (countName, n)]) of
        (s1, h) \<Rightarrow>
          Some (alloc s1 (HObj [(''variant'', HStr variant), (''handles'', h),
                                (''group'', grp)])))
   }"

definition edgeGroupToNodeData :: "store \<Rightarrow> hval \<Rightarrow> (store \<times> hval) option" where
  "edgeGroupToNodeData s grp = do {
     t \<leftarrow> getProp s grp ''type'';
     if t = HStr ''fan-in'' then groupPayload s ''fan-in'' ''sourceCount'' ''sources'' grp
     else if t = HStr ''fan-out'' then groupPayload s ''fan-out'' ''targetCount'' ''targets'' grp
     else if t = HStr ''switch-case'' then
       groupPayload s ''switch-case'' ''caseCount'' ''cases'' grp
     else Some (s, HNull)
   }"

definition getNodeTypeFromEdgeGroup :: "store \<Rightarrow> hval \<Rightarrow> hval option" where
  "getNodeTypeFromEdgeGroup s grp = do {
     t \<leftarrow> getProp s grp ''type'';
     Some (if t = HStr ''fan-in'' \<or> t = HStr ''fan-out'' \<or> t = HStr ''switch-case''
           then t else HStr ''executor'')
   }"

text \<open>The second loop: one node, at the origin, for every edge group that has a payload.\<close>

fun groupNodes :: "hval list \<Rightarrow> store \<times> hval list \<Rightarrow> (store \<times> hval list) option" where
  "groupNodes [] st = Some st"
| "groupNodes (grp # rest) (s, nodes) = do {
     (s1, nodeData) \<leftarrow> edgeGroupToNodeData s grp;
     if htruthy nodeData then
       (case alloc s1 (HObj [(''x'', HNum 0), (''y'', HNum 0)]) of
          (s2, position) \<Rightarrow> do {
            i \<leftarrow> getProp s2 grp ''id'';
            t \<leftarrow> getNodeTypeFromEdgeGroup s2 grp;
            (case alloc s2 (HObj [(''id'', i), (''type'', t), (''position'', position),
                                  (''data'', nodeData)]) of
               (s3, node) \<Rightarrow> groupNodes rest (s3, nodes @ [node]))
          })
     else groupNodes rest (s1, nodes)
   }"

text \<open>
  The third loop: one edge, of the rendering type \<open>animated\<close>, for every edge of the
  document; its data are \<open>{ condition: edge.condition, ...edge.metadata }\<close>.
\<close>

definition renderEdge :: "store \<Rightarrow> hval \<Rightarrow> (store \<times> hval) option" where
  "renderEdge s edge = do {
     i \<leftarrow> getProp s edge ''id'';
     src \<leftarrow> getProp s edge ''source'';
     tgt \<leftarrow> getProp s edge ''target'';
     c \<leftarrow> getProp s edge ''condition'';
     md \<leftarrow> getProp s edge ''metadata'';
     fs \<leftarrow> spread s md;
     (case alloc s (HObj (fold (\<lambda>kv acc. AList.update (fst kv) (snd kv) acc) fs
                            [(''condition'', c)])) of
        (s1, data) \<Rightarrow>
          Some (alloc s1 (HObj [(''id'', i), (''source'', src), (''target'', tgt),
                                (''type'', HStr ''animated''), (''data'', data)])))
   }"

fun renderEdges :: "hval list \<Rightarrow> store \<times> hval list \<Rightarrow> (store \<times> hval list) option" where
  "renderEdges [] st = Some st"
| "renderEdges (edge # rest) (s, edges) = do {
     (s1, e) \<leftarrow> renderEdge s edge;
     renderEdges rest (s1, edges @ [e])
   }"

text \<open>
  \<open>workflowToReactFlow\<close>: the result object with its two arrays.
\<close>

definition workflowToReactFlow :: "store \<Rightarrow> hval \<Rightarrow> (store \<times> hval) option" where
  "workflowToReactFlow s workflow = do {
     exs \<leftarrow> getProp s workflow ''executors'';
     executors \<leftarrow> elements s exs;
     (s1, nodes) \<leftarrow> executorNodes workflow executors (s, []);
     gs \<leftarrow> getProp s1 workflow ''edgeGroups'';
     (s2, nodes) \<leftarrow> (if htruthy gs then do {
                        groups \<leftarrow> elements s1 gs;
                        groupNodes groups (s1, nodes)
                      } else Some (s1, nodes));
     es \<leftarrow> getProp s2 workflow ''edges'';
     edges \<leftarrow> elements s2 es;
     (s3, edges) \<leftarrow> renderEdges edges (s2, []);
     (case alloc s3 (HArr nodes) of (s4, nodesRef) \<Rightarrow>
      case alloc s4 (HArr edges) of (s5, edgesRef) \<Rightarrow>
        Some (alloc s5 (HObj [(''nodes'', nodesRef), (''edges'', edgesRef)])))
   }"

subsection \<open>Reading a store\<close>

text \<open>
  For the statements: the own property of the object a value refers to (\<open>undefined\<close>
  when there is none, or no such object), and the elements of the array a value refers
  to.
\<close>

fun field :: "store \<Rightarrow> hval \<Rightarrow> string \<Rightarrow> hval" where
  "field s (HRef a) k = (if a < length s then fieldOf (s ! a) k else HUndefined)"
| "field s v k = HUndefined"

definition arrayAt :: "store \<Rightarrow> hval \<Rightarrow> hval list" where
  "arrayAt s v =
     (case v of
        HRef a \<Rightarrow> (if a < length s then (case s ! a of HArr xs \<Rightarrow> xs | _ \<Rightarrow> []) else [])
      | _ \<Rightarrow> [])"

section \<open>The conversion writes into its input\<close>

text \<open>
  An executor node (address 0) with its position (1), payload (2), the payload's
  executor (3) and that executor's metadata (4), and the store after its conversion.
\<close>

definition exampleStore :: store where
  "exampleStore =
     [HObj [(''id'', HStr ''executor-1''), (''type'', HStr ''executor''),
            (''position'', HRef 1), (''data'', HRef 2)],
      HObj [(''x'', HNum 200), (''y'', HNum 300)],
      HObj [(''variant'', HStr ''executor''), (''executor'', HRef 3),
            (''executorType'', HStr ''executor'')],
      HObj [(''id'', HStr ''executor-1''), (''type'', HStr ''executor''),
            (''metadata'', HRef 4)],
      HObj [(''source'', HStr ''agent-framework'')]]"

definition exampleResult :: store where
  "exampleResult =
     [HObj [(''id'', HStr ''executor-1''), (''type'', HStr ''executor''),
            (''position'', HRef 1), (''data'', HRef 2)],
      HObj [(''x'', HNum 200), (''y'', HNum 300)],
      HObj [(''variant'', HStr ''executor''), (''executor'', HRef 3),
            (''executorType'', HStr ''executor'')],
      HObj [(''id'', HStr ''executor-1''), (''type'', HStr ''executor''),
            (''metadata'', HRef 4)],
      HObj [(''source'', HStr ''agent-framework''), (''position'', HRef 1)],
      HObj [(''id'', HStr ''executor-1''), (''type'', HStr ''executor''),
            (''metadata'', HRef 4)],
      HArr [HRef 5],
      HArr [],
      HObj [(''executor-1'', HRef 1)],
      HObj [(''nodePositions'', HRef 8)],
      HObj [(''createdAt'', HStr ''t0''), (''custom'', HRef 9), (''nodePositions'', HRef 8)],
      HObj [(''id'', HStr ''workflow-1''), (''name'', HUndefined),
            (''executors'', HRef 6), (''edges'', HRef 7),
            (''edgeGroups'', HUndefined), (''metadata'', HRef 10)]]"

lemmas conversion_defs =
  reactFlowToWorkflow_def nodeToExecutor_def stampPosition_def buildDocument_def alloc_def
  isExecutorVariant_def isGroupVariant_def assignKey_def cellOf_def objectPrototype_def
  convertEdge_def

lemma example_run:
  "reactFlowToWorkflow ''t0'' exampleStore [HRef 0] [] ''workflow-1'' HUndefined =
     Some (exampleResult, HRef 11)"
  by (simp add: conversion_defs exampleStore_def exampleResult_def)

text \<open>
  Claim C9 fails on the code. The node of the example is one that the canvas holds after
  an executor with metadata has been added (the factory gives the magentic executors a
  metadata object). \<open>nodeToExecutor\<close> copies the payload's executor one level deep, so
  the copy's \<open>metadata\<close> is the metadata object of the input (address 4), and the
  assignment \<open>executor.metadata.position = node.position\<close> writes into that object: it
  has a \<open>position\<close> property after the call that it did not have before. The executor
  of the returned document (address 5) refers to the same metadata object, and the
  document's position object holds the node's own position object (address 1).
\<close>

theorem conversion_shares_and_mutates:
  "reactFlowToWorkflow ''t0'' exampleStore [HRef 0] [] ''workflow-1'' HUndefined =
     Some (exampleResult, HRef 11) \<and>
   field exampleStore (HRef 3) ''metadata'' = HRef 4 \<and>
   field exampleStore (HRef 4) ''position'' = HUndefined \<and>
   field exampleResult (HRef 4) ''position'' = HRef 1 \<and>
   exampleResult ! 4 \<noteq> exampleStore ! 4 \<and>
   arrayAt exampleResult (field exampleResult (HRef 11) ''executors'') = [HRef 5] \<and>
   field exampleResult (HRef 5) ''metadata'' = HRef 4 \<and>
   field exampleStore (HRef 0) ''position'' = HRef 1 \<and>
   field exampleResult
     (field exampleResult (field exampleResult (HRef 11) ''metadata'') ''nodePositions'')
     ''executor-1'' = HRef 1"
  using example_run
  by (simp add: exampleStore_def exampleResult_def arrayAt_def)

section \<open>The position object is a plain object\<close>

text \<open>
  \<open>nodePositions\<close> is an object literal used as a dictionary, so the names that every
  object inherits are in the way of node and executor ids. A legacy node (address 0) with
  its position (1) and payload (2), under a given id:
\<close>

definition legacyStore :: "string \<Rightarrow> store" where
  "legacyStore i =
     [HObj [(''id'', HStr i), (''type'', HStr ''textBlock''),
            (''position'', HRef 1), (''data'', HRef 2)],
      HObj [(''x'', HNum 600), (''y'', HNum (- 250))],
      HObj [(''variant'', HStr ''text-block''), (''title'', HStr ''Creative brief'')]]"

definition legacyResult :: "string \<Rightarrow> hcell list \<Rightarrow> store" where
  "legacyResult i metadataCells =
     legacyStore i @ [HArr [], HArr []] @ metadataCells @
     [HObj [(''id'', HStr ''workflow-1''), (''name'', HUndefined),
            (''executors'', HRef 3), (''edges'', HRef 4),
            (''edgeGroups'', HUndefined), (''metadata'', HRef 7)]]"


lemma legacy_proto_run:
  "reactFlowToWorkflow ''t0'' (legacyStore ''__proto__'') [HRef 0] [] ''workflow-1'' HUndefined =
     Some (legacyResult ''__proto__''
             [HObjP [] (HRef 1), HObj [], HObj [(''createdAt'', HStr ''t0'')]],
           HRef 8)"
  by (simp add: conversion_defs legacyStore_def legacyResult_def)


text \<open>
  A document (address 0) with one executor (6), whose id is given, and a position object
  (4) at the top level of its metadata (3) that records a position (5) for
  \<open>executor-1\<close>.
\<close>

definition documentStore :: "string \<Rightarrow> store" where
  "documentStore i =
     [HObj [(''id'', HStr ''workflow-1''), (''executors'', HRef 1), (''edges'', HRef 2),
            (''metadata'', HRef 3)],
      HArr [HRef 6],
      HArr [],
      HObj [(''nodePositions'', HRef 4)],
      HObj [(''executor-1'', HRef 5)],
      HObj [(''x'', HNum 100), (''y'', HNum 100)],
      HObj [(''id'', HStr i), (''type'', HStr ''executor''), (''label'', HStr ''Test Executor'')]]"

lemmas rendering_defs =
  workflowToReactFlow_def executorPosition_def executorToNodeData_def executorPayload_def
  getNodeTypeFromExecutor_def alloc_def hnullish_def inherited_def objectPrototypeMembers_def
  objectPrototype_def

text \<open>The position of the only node of the graph that a document is rendered as.\<close>

definition renderedPosition :: "store \<Rightarrow> hval \<Rightarrow> (store \<times> hval) option" where
  "renderedPosition s workflow =
     (case workflowToReactFlow s workflow of
        None \<Rightarrow> None
      | Some (s', graph) \<Rightarrow> Some (s', field s' (hd (arrayAt s' (field s' graph ''nodes''))) ''position''))"

lemma rendered_recorded:
  "renderedPosition (documentStore ''executor-1'') (HRef 0) = Some (s, p) \<Longrightarrow> p = HRef 5"
  by (auto simp: renderedPosition_def rendering_defs documentStore_def arrayAt_def
           split: option.splits)

lemma rendered_default:
  "renderedPosition (documentStore ''executor-2'') (HRef 0) = Some (s, p) \<Longrightarrow>
   p = HRef 7 \<and> s ! 7 = HObj [(''x'', HNum 0), (''y'', HNum 0)]"
  by (auto simp: renderedPosition_def rendering_defs documentStore_def arrayAt_def
           split: option.splits)

lemma rendered_constructor:
  "renderedPosition (documentStore ''constructor'') (HRef 0) = Some (s, p) \<Longrightarrow>
   p = HBuiltin ''Object.prototype.constructor''"
  by (auto simp: renderedPosition_def rendering_defs documentStore_def arrayAt_def
           split: option.splits)

text \<open>
  Claim C3 fails on the code where an id is a name that every object inherits. Reading:
  the document records a position for \<open>executor-1\<close> only; the node of an executor
  \<open>executor-1\<close> is at the recorded position and the node of an executor \<open>executor-2\<close> at
  a new origin, but the node of an executor \<open>constructor\<close>, for which no position is
  recorded either, gets as its position the function that \<open>nodePositions.constructor\<close>
  inherits from \<open>Object.prototype\<close>. Writing: for a graph whose only node has the id
  \<open>__proto__\<close> a position is collected and neither write is performed.
\<close>

theorem position_lookup_finds_inherited:
  "(case renderedPosition (documentStore ''executor-1'') (HRef 0) of
      None \<Rightarrow> False | Some (s, p) \<Rightarrow> p = HRef 5) \<and>
   (case renderedPosition (documentStore ''executor-2'') (HRef 0) of
      None \<Rightarrow> False
    | Some (s, p) \<Rightarrow> p = HRef 7 \<and> s ! 7 = HObj [(''x'', HNum 0), (''y'', HNum 0)]) \<and>
   (case renderedPosition (documentStore ''constructor'') (HRef 0) of
      None \<Rightarrow> False | Some (s, p) \<Rightarrow> p = HBuiltin ''Object.prototype.constructor'') \<and>
   (case reactFlowToWorkflow ''t0'' (legacyStore ''__proto__'') [HRef 0] [] ''workflow-1''
          HUndefined of
      None \<Rightarrow> False
    | Some (s, doc) \<Rightarrow>
        field (legacyStore ''__proto__'') (HRef 0) ''position'' = HRef 1 \<and>
        field s (field s doc ''metadata'') ''nodePositions'' = HUndefined \<and>
        field s (field s doc ''metadata'') ''custom'' = HUndefined)"
proof -
  have 1: "renderedPosition (documentStore ''executor-1'') (HRef 0) \<noteq> None"
          "renderedPosition (documentStore ''executor-2'') (HRef 0) \<noteq> None"
          "renderedPosition (documentStore ''constructor'') (HRef 0) \<noteq> None"
    by (simp_all add: renderedPosition_def rendering_defs documentStore_def)
  have 2: "case reactFlowToWorkflow ''t0'' (legacyStore ''__proto__'') [HRef 0] [] ''workflow-1''
               HUndefined of
             None \<Rightarrow> False
           | Some (s, doc) \<Rightarrow>
               field (legacyStore ''__proto__'') (HRef 0) ''position'' = HRef 1 \<and>
               field s (field s doc ''metadata'') ''nodePositions'' = HUndefined \<and>
               field s (field s doc ''metadata'') ''custom'' = HUndefined"
    unfolding legacy_proto_run by (simp add: legacyResult_def legacyStore_def)
  show ?thesis
    using 1 2 rendered_recorded rendered_default rendered_constructor
    by (auto split: option.splits)
qed

end
